theory Spec2Isabelle
  imports Main "HOL-Library.Sublist"
begin

section \<open>Strings and paths\<close>

text \<open>
  A Python \<open>str\<close> is modelled as a \<open>string\<close> (a list of characters with code points
  below 256).  The path functions are those of \<open>posixpath\<close>, the \<open>os.path\<close> of a POSIX
  system: the separator is \<open>/\<close>.
\<close>

definition isspace :: "char \<Rightarrow> bool" where
  "isspace c = (c \<in> set [CHR 0x09, CHR 0x0A, CHR 0x0B, CHR 0x0C, CHR 0x0D,
                          CHR 0x1C, CHR 0x1D, CHR 0x1E, CHR 0x1F, CHR 0x20,
                          CHR 0x85, CHR 0xA0])"

text \<open>\<open>s.strip()\<close>: leading and trailing whitespace removed.\<close>

definition strip :: "string \<Rightarrow> string" where
  "strip s = rev (dropWhile isspace (rev (dropWhile isspace s)))"

text \<open>\<open>os.path.basename(p)\<close>: what follows the last separator.\<close>

definition basename :: "string \<Rightarrow> string" where
  "basename p = rev (takeWhile (\<lambda>c. c \<noteq> CHR ''/'') (rev p))"

text \<open>\<open>os.path.join(a, b)\<close> with two arguments.\<close>

definition join :: "string \<Rightarrow> string \<Rightarrow> string" where
  "join a b =
     (if b \<noteq> [] \<and> hd b = CHR ''/'' then b
      else if a = [] \<or> last a = CHR ''/'' then a @ b
      else a @ ''/'' @ b)"

text \<open>The components of a path, split at every separator (\<open>p.split('/')\<close>).\<close>

fun components :: "string \<Rightarrow> string list" where
  "components [] = [[]]"
| "components (c # cs) =
     (if c = CHR ''/'' then [] # components cs
      else (case components cs of
              [] \<Rightarrow> [[c]]
            | x # xs \<Rightarrow> (c # x) # xs))"

section \<open>Exceptions\<close>

datatype errno = ENOENT | EEXIST | ENOTDIR | EISDIR | EINVAL | ENOTEMPTY | EBUSY

text \<open>
  The exceptions of the two modules.  \<open>OSError\<close> carries its error number and the file
  name; all but \<open>OtherException\<close> name the Python class raised.  Every one of them is a
  subclass of \<open>Exception\<close>, so an \<open>except Exception\<close> clause catches each.
\<close>

datatype py_exception =
    OSError errno string
  | ValueError string
  | IndexError string
  | UnknownValueError
  | RequestError string
  | OtherException string

fun strerror :: "errno \<Rightarrow> string" where
  "strerror ENOENT = ''[Errno 2] No such file or directory''"
| "strerror EEXIST = ''[Errno 17] File exists''"
| "strerror ENOTDIR = ''[Errno 20] Not a directory''"
| "strerror EISDIR = ''[Errno 21] Is a directory''"
| "strerror EINVAL = ''[Errno 22] Invalid argument''"
| "strerror ENOTEMPTY = ''[Errno 39] Directory not empty''"
| "strerror EBUSY = ''[Errno 16] Device or resource busy''"

text \<open>
  \<open>repr(s)\<close> of a string: in single quotes, or in double quotes when the string has a
  single quote and no double quote; the quote and the backslash are escaped, tab,
  newline and carriage return are written \<open>\t\<close>, \<open>\n\<close>, \<open>\r\<close>, and any other character
  that is not printable is written \<open>\xhh\<close>.
\<close>

definition py_printable :: "char \<Rightarrow> bool" where
  "py_printable c =
     ((0x20 \<le> (of_char c :: nat) \<and> (of_char c :: nat) < 0x7F)
      \<or> (0xA1 \<le> (of_char c :: nat) \<and> (of_char c :: nat) \<noteq> 0xAD))"

definition hex_digit :: "nat \<Rightarrow> char" where
  "hex_digit n = ''0123456789abcdef'' ! (n mod 16)"

definition repr_char :: "char \<Rightarrow> char \<Rightarrow> string" where
  "repr_char q c =
     (if c = q \<or> c = CHR 0x5C then [CHR 0x5C, c]
      else if c = CHR 0x09 then [CHR 0x5C, CHR ''t'']
      else if c = CHR 0x0A then [CHR 0x5C, CHR ''n'']
      else if c = CHR 0x0D then [CHR 0x5C, CHR ''r'']
      else if py_printable c then [c]
      else [CHR 0x5C, CHR ''x'', hex_digit ((of_char c :: nat) div 16),
            hex_digit ((of_char c :: nat) mod 16)])"

definition py_repr :: "string \<Rightarrow> string" where
  "py_repr s =
     (if CHR 0x27 \<in> set s \<and> CHR 0x22 \<notin> set s
      then [CHR 0x22] @ concat (map (repr_char (CHR 0x22)) s) @ [CHR 0x22]
      else [CHR 0x27] @ concat (map (repr_char (CHR 0x27)) s) @ [CHR 0x27])"

text \<open>
  \<open>str(e)\<close>, as the f-strings format an exception: for an \<open>OSError\<close> the error number
  and its text (those of Linux), then the \<open>repr\<close> of the file name.
\<close>

fun str_exc :: "py_exception \<Rightarrow> string" where
  "str_exc (OSError n f) = strerror n @ '': '' @ py_repr f"
| "str_exc (ValueError m) = m"
| "str_exc (IndexError m) = m"
| "str_exc UnknownValueError = []"
| "str_exc (RequestError m) = m"
| "str_exc (OtherException m) = m"

section \<open>The process and its file system\<close>

text \<open>
  The tools of \<open>app/graph.py\<close> act on the file system through \<open>os\<close> and \<open>shutil\<close> and
  on the process through \<open>os.chdir\<close> and \<open>threading\<close>.  The state they act on is a
  record: the file system as a map from absolute paths (lists of names, \<open>[]\<close> the root)
  to nodes, the current working directory, and the server threads started so far.
  There are no symbolic links and no permissions in this model.
\<close>

type_synonym path = "string list"

datatype node = RegFile string | Directory

datatype server_class = HTTPServer | ThreadingHTTPServer

record server_thread =
  srv_class :: server_class
  srv_host :: string
  srv_port :: nat
  srv_handler :: string
  srv_daemon :: bool

record world =
  fs :: "path \<rightharpoonup> node"
  cwd :: path
  threads :: "server_thread list"

definition node_at :: "(path \<rightharpoonup> node) \<Rightarrow> path \<Rightarrow> node option" where
  "node_at f p = (if p = [] then Some Directory else f p)"

definition step_component :: "path \<Rightarrow> string \<Rightarrow> path" where
  "step_component cur c =
     (if c = [] \<or> c = ''.'' then cur
      else if c = ''..'' then butlast cur
      else cur @ [c])"

text \<open>
  Path resolution: each component is looked up in the directory reached so far, which
  has to exist and be a directory; the last component may name nothing yet.
\<close>

fun walk :: "(path \<rightharpoonup> node) \<Rightarrow> path \<Rightarrow> string list \<Rightarrow> string \<Rightarrow> py_exception + path" where
  "walk f cur [] p = Inr cur"
| "walk f cur (c # cs) p =
     (case node_at f cur of
        None \<Rightarrow> Inl (OSError ENOENT p)
      | Some (RegFile _) \<Rightarrow> Inl (OSError ENOTDIR p)
      | Some Directory \<Rightarrow> walk f (step_component cur c) cs p)"

definition start_dir :: "world \<Rightarrow> string \<Rightarrow> path" where
  "start_dir w p = (if p \<noteq> [] \<and> hd p = CHR ''/'' then [] else cwd w)"

definition locate :: "world \<Rightarrow> string \<Rightarrow> py_exception + path" where
  "locate w p =
     (if p = [] then Inl (OSError ENOENT p)
      else if CHR 0x00 \<in> set p then Inl (ValueError ''embedded null byte'')
      else walk (fs w) (start_dir w p) (components p) p)"

text \<open>\<open>os.path.exists(p)\<close>: never raises; any failure of the lookup is \<open>False\<close>.\<close>

definition os_path_exists :: "string \<Rightarrow> world \<Rightarrow> bool" where
  "os_path_exists p w =
     (case locate w p of
        Inl _ \<Rightarrow> False
      | Inr t \<Rightarrow> node_at (fs w) t \<noteq> None)"

text \<open>
  \<open>os.makedirs(p, exist_ok=True)\<close>: every missing directory on the way is created; a
  regular file on the way raises \<open>NotADirectoryError\<close>, one at the end (trailing
  separators apart) \<open>FileExistsError\<close>.  The directories created before the failure
  stay.  Names have no length limit in this model.
\<close>

fun mkpath :: "(path \<rightharpoonup> node) \<Rightarrow> path \<Rightarrow> string list \<Rightarrow> string
    \<Rightarrow> py_exception option \<times> (path \<rightharpoonup> node)" where
  "mkpath f cur [] p = (None, f)"
| "mkpath f cur (c # cs) p =
     (case node_at f (step_component cur c) of
        Some Directory \<Rightarrow> mkpath f (step_component cur c) cs p
      | Some (RegFile _) \<Rightarrow>
          (Some (OSError (if list_all (\<lambda>c. c = []) cs then EEXIST else ENOTDIR) p), f)
      | None \<Rightarrow> mkpath (f(step_component cur c \<mapsto> Directory)) (step_component cur c) cs p)"

definition os_makedirs :: "string \<Rightarrow> world \<Rightarrow> py_exception option \<times> world" where
  "os_makedirs p w =
     (if p = [] then (Some (OSError ENOENT p), w)
      else if CHR 0x00 \<in> set p then (Some (ValueError ''embedded null byte''), w)
      else (case node_at (fs w) (start_dir w p) of
              None \<Rightarrow> (Some (OSError ENOENT p), w)
            | Some (RegFile _) \<Rightarrow> (Some (OSError ENOTDIR p), w)
            | Some Directory \<Rightarrow>
                (case mkpath (fs w) (start_dir w p) (components p) p of
                   (r, f') \<Rightarrow> (r, w\<lparr>fs := f'\<rparr>))))"

text \<open>\<open>with open(p, "w", encoding="utf-8") as f: f.write(content)\<close>.\<close>

definition os_open_write :: "string \<Rightarrow> string \<Rightarrow> world \<Rightarrow> py_exception option \<times> world" where
  "os_open_write p content w =
     (case locate w p of
        Inl e \<Rightarrow> (Some e, w)
      | Inr t \<Rightarrow>
          (case node_at (fs w) t of
             Some Directory \<Rightarrow> (Some (OSError EISDIR p), w)
           | _ \<Rightarrow> (None, w\<lparr>fs := (fs w)(t \<mapsto> RegFile content)\<rparr>)))"

text \<open>\<open>os.remove(p)\<close>.\<close>

definition os_remove :: "string \<Rightarrow> world \<Rightarrow> py_exception option \<times> world" where
  "os_remove p w =
     (case locate w p of
        Inl e \<Rightarrow> (Some e, w)
      | Inr t \<Rightarrow>
          (case node_at (fs w) t of
             None \<Rightarrow> (Some (OSError ENOENT p), w)
           | Some Directory \<Rightarrow> (Some (OSError EISDIR p), w)
           | Some (RegFile _) \<Rightarrow> (None, w\<lparr>fs := (fs w)(t := None)\<rparr>)))"

text \<open>
  \<open>shutil.rmtree(p)\<close>: everything below the directory is removed, then the directory
  itself by \<open>os.rmdir(p)\<close>, which resolves \<open>p\<close> again and refuses a path that ends in
  \<open>.\<close> or \<open>..\<close>, and the root.
\<close>

definition os_rmdir :: "string \<Rightarrow> world \<Rightarrow> py_exception option \<times> world" where
  "os_rmdir p w =
     (case locate w p of
        Inl e \<Rightarrow> (Some e, w)
      | Inr t \<Rightarrow>
          (if last (components p) = ''.'' then (Some (OSError EINVAL p), w)
           else if last (components p) = ''..'' then (Some (OSError ENOTEMPTY p), w)
           else if t = [] then (Some (OSError EBUSY p), w)
           else (case node_at (fs w) t of
                   None \<Rightarrow> (Some (OSError ENOENT p), w)
                 | Some (RegFile _) \<Rightarrow> (Some (OSError ENOTDIR p), w)
                 | Some Directory \<Rightarrow> (None, w\<lparr>fs := (fs w)(t := None)\<rparr>))))"

definition shutil_rmtree :: "string \<Rightarrow> world \<Rightarrow> py_exception option \<times> world" where
  "shutil_rmtree p w =
     (case locate w p of
        Inl e \<Rightarrow> (Some e, w)
      | Inr t \<Rightarrow>
          (case node_at (fs w) t of
             None \<Rightarrow> (Some (OSError ENOENT p), w)
           | Some (RegFile _) \<Rightarrow> (Some (OSError ENOTDIR p), w)
           | Some Directory \<Rightarrow>
               os_rmdir p (w\<lparr>fs := (\<lambda>q. if strict_prefix t q then None else fs w q)\<rparr>)))"

text \<open>\<open>os.chdir(p)\<close>.\<close>

definition os_chdir :: "string \<Rightarrow> world \<Rightarrow> py_exception option \<times> world" where
  "os_chdir p w =
     (case locate w p of
        Inl e \<Rightarrow> (Some e, w)
      | Inr t \<Rightarrow>
          (case node_at (fs w) t of
             None \<Rightarrow> (Some (OSError ENOENT p), w)
           | Some (RegFile _) \<Rightarrow> (Some (OSError ENOTDIR p), w)
           | Some Directory \<Rightarrow> (None, w\<lparr>cwd := t\<rparr>)))"

section \<open>The tools of app/graph.py\<close>

text \<open>
  Each tool takes its arguments and the state and returns its result and the new state.
  The result is \<open>Inr\<close> the string returned, or \<open>Inl\<close> the exception that leaves the
  function.
\<close>

definition CHAT_GPT_DIR :: string where
  "CHAT_GPT_DIR = ''chat_gpt''"

definition create_folder :: "string \<Rightarrow> world \<Rightarrow> (py_exception + string) \<times> world" where
  "create_folder folder_name w =
     (case os_makedirs CHAT_GPT_DIR w of
        (Some e, w1) \<Rightarrow> (Inl e, w1)
      | (None, w1) \<Rightarrow>
          (let safe_name = basename (strip folder_name);
               path = join CHAT_GPT_DIR safe_name
           in case os_makedirs path w1 of
                (None, w2) \<Rightarrow> (Inr (''Folder created at '' @ path), w2)
              | (Some e, w2) \<Rightarrow> (Inr (''Failed to create folder: '' @ str_exc e), w2)))"

text \<open>\<open>if folder_name:\<close> holds for a string that is neither \<open>None\<close> nor empty.\<close>

definition base_dir_of :: "string option \<Rightarrow> string" where
  "base_dir_of folder_name =
     (case folder_name of
        None \<Rightarrow> CHAT_GPT_DIR
      | Some n \<Rightarrow> (if n = [] then CHAT_GPT_DIR
                   else join CHAT_GPT_DIR (basename (strip n))))"

definition create_code_file ::
    "string \<Rightarrow> string \<Rightarrow> string option \<Rightarrow> world \<Rightarrow> (py_exception + string) \<times> world" where
  "create_code_file filename content folder_name w =
     (let base_dir = base_dir_of folder_name
      in case os_makedirs base_dir w of
           (Some e, w1) \<Rightarrow> (Inl e, w1)
         | (None, w1) \<Rightarrow>
             (let safe_name = basename filename;
                  path = join base_dir safe_name
              in case os_open_write path content w1 of
                   (None, w2) \<Rightarrow> (Inr (''File created/updated at '' @ path), w2)
                 | (Some e, w2) \<Rightarrow>
                     (Inr (''Failed to create/update file: '' @ str_exc e), w2)))"

definition delete_folder :: "string \<Rightarrow> world \<Rightarrow> (py_exception + string) \<times> world" where
  "delete_folder folder_name w =
     (let base = join CHAT_GPT_DIR (basename (strip folder_name))
      in if \<not> os_path_exists base w
         then (Inr (''Folder '' @ base @ '' does not exist.''), w)
         else (case shutil_rmtree base w of
                 (None, w1) \<Rightarrow> (Inr (''Folder '' @ base @ '' has been deleted.''), w1)
               | (Some e, w1) \<Rightarrow> (Inr (''Failed to delete folder: '' @ str_exc e), w1)))"

definition delete_file ::
    "string \<Rightarrow> string option \<Rightarrow> world \<Rightarrow> (py_exception + string) \<times> world" where
  "delete_file filename folder_name w =
     (let base_dir = base_dir_of folder_name;
          path = join base_dir (basename filename)
      in if \<not> os_path_exists path w
         then (Inr (''File '' @ path @ '' does not exist.''), w)
         else (case os_remove path w of
                 (None, w1) \<Rightarrow> (Inr (''File '' @ path @ '' has been deleted.''), w1)
               | (Some e, w1) \<Rightarrow> (Inr (''Failed to delete file: '' @ str_exc e), w1)))"

text \<open>
  \<open>run_project\<close>: the directory is prepared inside the \<open>try\<close>; then a daemon thread is
  started that serves with \<open>ThreadingHTTPServer(("localhost", 8000),
  SimpleHTTPRequestHandler)\<close>.  Whether the server binds its port is decided inside the
  thread and never reaches the caller.
\<close>

definition serve :: server_thread where
  "serve = \<lparr>srv_class = ThreadingHTTPServer, srv_host = ''localhost'', srv_port = 8000,
            srv_handler = ''SimpleHTTPRequestHandler'', srv_daemon = True\<rparr>"

text \<open>
  \<open>HTTPServer\<close> handles one request at a time, in the thread that serves;
  \<open>ThreadingHTTPServer\<close> (\<open>ThreadingMixIn\<close>) starts a new thread for every request.
\<close>

fun single_threaded :: "server_class \<Rightarrow> bool" where
  "single_threaded HTTPServer = True"
| "single_threaded ThreadingHTTPServer = False"

definition run_project :: "world \<Rightarrow> (py_exception + string) \<times> world" where
  "run_project w =
     (case os_makedirs CHAT_GPT_DIR w of
        (Some e, w1) \<Rightarrow> (Inr (''Failed to prepare project directory: '' @ str_exc e), w1)
      | (None, w1) \<Rightarrow>
          (case os_chdir CHAT_GPT_DIR w1 of
             (Some e, w2) \<Rightarrow>
               (Inr (''Failed to prepare project directory: '' @ str_exc e), w2)
           | (None, w2) \<Rightarrow>
               (Inr ''Project server started at http://localhost:8000'',
                w2\<lparr>threads := threads w2 @ [serve]\<rparr>)))"

text \<open>A process started in \<open>/home/user\<close>, with nothing else on the disk.\<close>

definition world0 :: world where
  "world0 = \<lparr>fs = [[''home''] \<mapsto> Directory, [''home'', ''user''] \<mapsto> Directory],
             cwd = [''home'', ''user''], threads = []\<rparr>"

section \<open>The conversation graph of app/graph.py\<close>

subsection \<open>Messages and the graph state\<close>

text \<open>
  The content of a message is a string or a list of content blocks (strings or
  dictionaries; a block is given here by its \<open>repr\<close>).  A message has a
  type (\<open>human\<close>, \<open>ai\<close>, \<open>tool\<close>, \<open>system\<close>) and, when the model asks for tools, a
  non-empty list of tool calls.
\<close>

datatype content = Str string | Blocks "string list"

record tool_call =
  call_name :: string
  call_args :: "(string \<times> string) list"

record message =
  msg_type :: string
  msg_content :: content
  msg_tool_calls :: "tool_call list"

record State =
  messages :: "message list"
  rewritten_prompt :: "string option"
  plan :: "string option"

subsection \<open>The graph builder\<close>

definition START :: string where
  "START = ''__start__''"

definition END :: string where
  "END = ''__end__''"

text \<open>The four functions bound to node names by \<open>add_node\<close>.\<close>

datatype node_action = Rewrite_node | Plan_node | Chatbot | Tool_node

record state_graph =
  nodes :: "(string \<times> node_action) list"
  edges :: "(string \<times> string) list"
  branches :: "(string \<times> (State \<Rightarrow> py_exception + string)) list"

definition StateGraph :: state_graph where
  "StateGraph = \<lparr>nodes = [], edges = [], branches = []\<rparr>"

definition add_node :: "string \<Rightarrow> node_action \<Rightarrow> state_graph \<Rightarrow> state_graph" where
  "add_node name act g = g\<lparr>nodes := nodes g @ [(name, act)]\<rparr>"

definition add_edge :: "string \<Rightarrow> string \<Rightarrow> state_graph \<Rightarrow> state_graph" where
  "add_edge a b g = g\<lparr>edges := edges g @ [(a, b)]\<rparr>"

definition add_conditional_edges ::
    "string \<Rightarrow> (State \<Rightarrow> py_exception + string) \<Rightarrow> state_graph \<Rightarrow> state_graph" where
  "add_conditional_edges a path g = g\<lparr>branches := branches g @ [(a, path)]\<rparr>"

text \<open>
  \<open>tools_condition\<close> of \<open>langgraph.prebuilt\<close>, the router of the conditional edge: it
  looks at the last message of the state and answers \<open>tools\<close> when that message carries
  tool calls, \<open>__end__\<close> otherwise; a state without messages raises \<open>ValueError\<close> (the
  library's message goes on with the \<open>repr\<close> of the state, which is left out here).
\<close>

definition tools_condition :: "State \<Rightarrow> py_exception + string" where
  "tools_condition s =
     (if messages s = [] then Inl (ValueError ''No messages found in input state to tool_edge'')
      else if msg_tool_calls (last (messages s)) \<noteq> [] then Inr ''tools''
      else Inr END)"

text \<open>The calls on \<open>graph_builder\<close>, in the order of the module.\<close>

definition graph_builder :: state_graph where
  "graph_builder =
     fold (\<lambda>call g. call g)
       [add_node ''rewrite'' Rewrite_node,
        add_node ''plan'' Plan_node,
        add_node ''chatbot'' Chatbot,
        add_node ''tools'' Tool_node,
        add_edge START ''rewrite'',
        add_edge ''rewrite'' ''plan'',
        add_edge ''plan'' ''chatbot'',
        add_conditional_edges ''chatbot'' tools_condition,
        add_edge ''tools'' ''chatbot'',
        add_edge ''chatbot'' END]
       StateGraph"

subsection \<open>Running a compiled graph\<close>


definition static_targets :: "state_graph \<Rightarrow> string \<Rightarrow> string list" where
  "static_targets g n = map snd (filter (\<lambda>e. fst e = n \<and> snd e \<noteq> END) (edges g))"











text \<open>
  Scripted models for running the graph on examples.  In \<open>scripted\<close> the chatbot asks for
  the \<open>create_folder\<close> tool until two tool results are in the conversation; in
  \<open>insistent\<close> it asks for the tool every time; in \<open>unreachable\<close> the call of the
  language model in the chatbot node raises.
\<close>

definition ai_message :: "string \<Rightarrow> tool_call list \<Rightarrow> message" where
  "ai_message t calls = \<lparr>msg_type = ''ai'', msg_content = Str t, msg_tool_calls = calls\<rparr>"


definition human_message :: "string \<Rightarrow> message" where
  "human_message t = \<lparr>msg_type = ''human'', msg_content = Str t, msg_tool_calls = []\<rparr>"






section \<open>The voice loop of app/main.py\<close>

text \<open>
  What the loop does is recorded as a list of actions.  What the microphone, the
  recogniser, the graph and the speech synthesis answer in one iteration is the
  iteration's environment; each may raise.  \<open>graph_stream\<close> gives the events the
  stream yields (each with or without a \<open>messages\<close> entry) and the exception that ends
  the stream, if any.
\<close>

datatype action =
    Print string
  | Listen
  | Recognize string
  | Stream string
  | PrettyPrint message
  | Speak string

record iter_env =
  listen :: "py_exception + string"
  recognize_google :: "string \<Rightarrow> py_exception + string"
  graph_stream :: "string \<Rightarrow> message list option list \<times> py_exception option"
  speak :: "string \<Rightarrow> py_exception option"

text \<open>Truth value of a message content: a non-empty string or a non-empty list.\<close>

fun truthy :: "content \<Rightarrow> bool" where
  "truthy (Str s) = (s \<noteq> [])"
| "truthy (Blocks b) = (b \<noteq> [])"

text \<open>
  The \<open>for event in graph.stream(...)\<close> loop: the last message of every event with
  messages is printed, and its content kept when the message is of type \<open>ai\<close> and the
  content is true.  \<open>event["messages"][-1]\<close> on an empty list raises \<open>IndexError\<close>.
\<close>

fun collect :: "message list option list \<Rightarrow> content option
    \<Rightarrow> action list \<times> (py_exception + content option)" where
  "collect [] last_ai_text = ([], Inr last_ai_text)"
| "collect (None # evs) last_ai_text = collect evs last_ai_text"
| "collect (Some [] # evs) last_ai_text = ([], Inl (IndexError ''list index out of range''))"
| "collect (Some (m # ms) # evs) last_ai_text =
     (case collect evs
             (if msg_type (last (m # ms)) = ''ai'' \<and> truthy (msg_content (last (m # ms)))
              then Some (msg_content (last (m # ms))) else last_ai_text) of
        (acts, r) \<Rightarrow> (PrettyPrint (last (m # ms)) # acts, r))"

text \<open>\<open>sep.join(xs)\<close>.\<close>

fun py_join :: "string \<Rightarrow> string list \<Rightarrow> string" where
  "py_join sep [] = []"
| "py_join sep [x] = x"
| "py_join sep (x # y # ys) = x @ sep @ py_join sep (y # ys)"

text \<open>
  Line 65: a content that is a string is taken as it is; any other is passed to \<open>str\<close>,
  which for a list gives the \<open>repr\<close>s of its elements, separated by a comma and a
  space, in square brackets.  (A block of \<open>Blocks\<close> is given by its \<open>repr\<close>.)
\<close>

fun text_str :: "content \<Rightarrow> string" where
  "text_str (Str t) = t"
| "text_str (Blocks b) = ''['' @ py_join '', '' b @ '']''"

text \<open>
  Lines 63 to 69, the text handed to \<open>speak\<close>: \<open>text_str[:400]\<close> is the first 400
  characters, or all of them when there are fewer.
\<close>

definition summary_text :: "content option \<Rightarrow> string" where
  "summary_text last_ai_text =
     (case last_ai_text of
        None \<Rightarrow> ''I have completed your request.''
      | Some c \<Rightarrow>
          (if truthy c
           then ''Here is my response: '' @ take 400 (text_str c)
           else ''I have completed your request.''))"

text \<open>
  One iteration of \<open>while True\<close>: the actions performed, and the exception that leaves
  the loop, if any.  \<open>None\<close> is the end of the iteration, by \<open>continue\<close> or at the end
  of the body.
\<close>

definition speak_summary :: "iter_env \<Rightarrow> string \<Rightarrow> action list" where
  "speak_summary env t =
     (case speak env t of
        None \<Rightarrow> [Speak t]
      | Some e \<Rightarrow> [Speak t, Print (''Error during speech synthesis: '' @ str_exc e)])"

definition respond :: "iter_env \<Rightarrow> string \<Rightarrow> action list \<times> py_exception option" where
  "respond env sst =
     (case graph_stream env sst of
        (events, raised) \<Rightarrow>
          (case collect events None of
             (printed, Inl e) \<Rightarrow> (Stream sst # printed, Some e)
           | (printed, Inr last_ai_text) \<Rightarrow>
               (case raised of
                  Some e \<Rightarrow> (Stream sst # printed, Some e)
                | None \<Rightarrow>
                    (Stream sst # printed @ speak_summary env (summary_text last_ai_text),
                     None))))"

definition iteration :: "iter_env \<Rightarrow> action list \<times> py_exception option" where
  "iteration env =
     (case listen env of
        Inl e \<Rightarrow> ([Print ''Say something!'', Listen], Some e)
      | Inr audio \<Rightarrow>
          (case recognize_google env audio of
             Inl UnknownValueError \<Rightarrow>
               ([Print ''Say something!'', Listen, Print ''Processing audio...'',
                 Recognize audio,
                 Print ''Sorry, I could not understand the audio. Please try again.''],
                None)
           | Inl (RequestError e) \<Rightarrow>
               ([Print ''Say something!'', Listen, Print ''Processing audio...'',
                 Recognize audio,
                 Print (''Could not request results from Google Speech Recognition service; '' @ e)],
                None)
           | Inl e \<Rightarrow>
               ([Print ''Say something!'', Listen, Print ''Processing audio...'',
                 Recognize audio],
                Some e)
           | Inr sst \<Rightarrow>
               (case respond env sst of
                  (acts, r) \<Rightarrow>
                    ([Print ''Say something!'', Listen, Print ''Processing audio...'',
                      Recognize audio, Print (''You Said: '' @ sst)] @ acts,
                     r))))"

text \<open>
  The loop over the iterations whose environments are given.  It has no \<open>break\<close> and
  no \<open>return\<close>: it stops only by an exception, and \<open>None\<close> says that it is still running
  after the given iterations.
\<close>

fun main_loop :: "iter_env list \<Rightarrow> action list \<times> py_exception option" where
  "main_loop [] = ([], None)"
| "main_loop (env # envs) =
     (case iteration env of
        (acts, Some e) \<Rightarrow> (acts, Some e)
      | (acts, None) \<Rightarrow>
          (case main_loop envs of
             (rest, r) \<Rightarrow> (acts @ rest, r)))"



text \<open>Which actions listen, transcribe, invoke the graph and speak.\<close>

fun listens :: "action \<Rightarrow> bool" where
  "listens Listen = True"
| "listens _ = False"

fun recognizes :: "action \<Rightarrow> bool" where
  "recognizes (Recognize _) = True"
| "recognizes _ = False"

fun invokes_graph :: "action \<Rightarrow> bool" where
  "invokes_graph (Stream _) = True"
| "invokes_graph _ = False"

fun speaks :: "action \<Rightarrow> bool" where
  "speaks (Speak _) = True"
| "speaks _ = False"

text \<open>
  Environments for examples: one in which everything succeeds and the graph answers in
  one step; the same with a recogniser that raises; and the same with a graph whose
  stream raises after its first event.
\<close>

definition env_ok :: iter_env where
  "env_ok =
     \<lparr>listen = Inr ''audio'',
      recognize_google = (\<lambda>audio. Inr ''make a folder''),
      graph_stream = (\<lambda>t. ([Some [human_message t],
                             Some [human_message t, ai_message ''Done.'' []]], None)),
      speak = (\<lambda>t. None)\<rparr>"

definition env_raising :: "py_exception \<Rightarrow> iter_env" where
  "env_raising e = env_ok\<lparr>recognize_google := (\<lambda>audio. Inl e)\<rparr>"

definition env_stream_raising :: "py_exception \<Rightarrow> iter_env" where
  "env_stream_raising e = env_ok\<lparr>graph_stream := (\<lambda>t. ([Some [human_message t]], Some e))\<rparr>"

section \<open>Properties of the tools\<close>

subsection \<open>What the library calls leave alone\<close>

lemma os_makedirs_frame:
  "cwd (snd (os_makedirs p w)) = cwd w \<and> threads (snd (os_makedirs p w)) = threads w"
  by (simp add: os_makedirs_def split: option.splits node.splits prod.splits)

lemma os_open_write_frame:
  "cwd (snd (os_open_write p c w)) = cwd w \<and> threads (snd (os_open_write p c w)) = threads w"
  by (simp add: os_open_write_def split: sum.splits option.splits node.splits)

lemma os_remove_frame:
  "cwd (snd (os_remove p w)) = cwd w \<and> threads (snd (os_remove p w)) = threads w"
  by (simp add: os_remove_def split: sum.splits option.splits node.splits)

lemma os_rmdir_frame:
  "cwd (snd (os_rmdir p w)) = cwd w \<and> threads (snd (os_rmdir p w)) = threads w"
  by (simp add: os_rmdir_def split: sum.splits option.splits node.splits)

lemma shutil_rmtree_frame:
  "cwd (snd (shutil_rmtree p w)) = cwd w \<and> threads (snd (shutil_rmtree p w)) = threads w"
  by (simp add: shutil_rmtree_def os_rmdir_frame split: sum.splits option.splits node.splits)

lemma create_folder_frame:
  "cwd (snd (create_folder n w)) = cwd w \<and> threads (snd (create_folder n w)) = threads w"
proof -
  let ?path = "join CHAT_GPT_DIR (basename (strip n))"
  obtain r1 w1 where a: "os_makedirs CHAT_GPT_DIR w = (r1, w1)"
    by (cases "os_makedirs CHAT_GPT_DIR w")
  obtain r2 w2 where b: "os_makedirs ?path w1 = (r2, w2)"
    by (cases "os_makedirs ?path w1")
  from a have f1: "cwd w1 = cwd w \<and> threads w1 = threads w"
    using os_makedirs_frame [of CHAT_GPT_DIR w] by simp
  from b have f2: "cwd w2 = cwd w1 \<and> threads w2 = threads w1"
    using os_makedirs_frame [of ?path w1] by simp
  show ?thesis
    using a b f1 f2 by (simp add: create_folder_def Let_def split: option.splits)
qed

lemma create_code_file_frame:
  "cwd (snd (create_code_file fn c fo w)) = cwd w \<and>
   threads (snd (create_code_file fn c fo w)) = threads w"
proof -
  let ?path = "join (base_dir_of fo) (basename fn)"
  obtain r1 w1 where a: "os_makedirs (base_dir_of fo) w = (r1, w1)"
    by (cases "os_makedirs (base_dir_of fo) w")
  obtain r2 w2 where b: "os_open_write ?path c w1 = (r2, w2)"
    by (cases "os_open_write ?path c w1")
  from a have f1: "cwd w1 = cwd w \<and> threads w1 = threads w"
    using os_makedirs_frame [of "base_dir_of fo" w] by simp
  from b have f2: "cwd w2 = cwd w1 \<and> threads w2 = threads w1"
    using os_open_write_frame [of ?path c w1] by simp
  show ?thesis
    using a b f1 f2 by (simp add: create_code_file_def Let_def split: option.splits)
qed

lemma delete_folder_frame:
  "cwd (snd (delete_folder n w)) = cwd w \<and> threads (snd (delete_folder n w)) = threads w"
proof -
  let ?base = "join CHAT_GPT_DIR (basename (strip n))"
  obtain r1 w1 where a: "shutil_rmtree ?base w = (r1, w1)"
    by (cases "shutil_rmtree ?base w")
  from a have f1: "cwd w1 = cwd w \<and> threads w1 = threads w"
    using shutil_rmtree_frame [of ?base w] by simp
  show ?thesis
    using a f1 by (simp add: delete_folder_def Let_def split: option.splits)
qed

lemma delete_file_frame:
  "cwd (snd (delete_file fn fo w)) = cwd w \<and> threads (snd (delete_file fn fo w)) = threads w"
proof -
  let ?path = "join (base_dir_of fo) (basename fn)"
  obtain r1 w1 where a: "os_remove ?path w = (r1, w1)"
    by (cases "os_remove ?path w")
  from a have f1: "cwd w1 = cwd w \<and> threads w1 = threads w"
    using os_remove_frame [of ?path w] by simp
  show ?thesis
    using a f1 by (simp add: delete_file_def Let_def split: option.splits)
qed

subsection \<open>Which tools return a string\<close>

text \<open>
  The two deleting tools and \<open>run_project\<close> make every raising call inside their \<open>try\<close>,
  so they return a string in every state.  The two creating tools do so once the
  \<open>os.makedirs\<close> call that stands before their \<open>try\<close> has succeeded.
\<close>

lemma delete_folder_returns: "\<exists>m. fst (delete_folder n w) = Inr m"
  by (simp add: delete_folder_def Let_def split: prod.splits option.splits)

lemma delete_file_returns: "\<exists>m. fst (delete_file fn fo w) = Inr m"
  by (simp add: delete_file_def Let_def split: prod.splits option.splits)

lemma run_project_returns: "\<exists>m. fst (run_project w) = Inr m"
  by (simp add: run_project_def split: prod.splits option.splits)

lemma create_folder_returns:
  "fst (os_makedirs CHAT_GPT_DIR w) = None \<Longrightarrow> \<exists>m. fst (create_folder n w) = Inr m"
  by (cases "os_makedirs CHAT_GPT_DIR w")
    (auto simp add: create_folder_def Let_def split: prod.splits option.splits)

lemma create_code_file_returns:
  "fst (os_makedirs (base_dir_of fo) w) = None \<Longrightarrow> \<exists>m. fst (create_code_file fn c fo w) = Inr m"
  by (cases "os_makedirs (base_dir_of fo) w")
    (auto simp add: create_code_file_def Let_def split: prod.splits option.splits)

text \<open>The exception that leaves a creating tool is the one of that first call.\<close>

lemma create_folder_raises_iff:
  "fst (create_folder n w) = Inl e \<longleftrightarrow> fst (os_makedirs CHAT_GPT_DIR w) = Some e"
  by (cases "os_makedirs CHAT_GPT_DIR w")
    (auto simp add: create_folder_def Let_def split: prod.splits option.splits)

lemma create_code_file_raises_iff:
  "fst (create_code_file fn c fo w) = Inl e \<longleftrightarrow>
     fst (os_makedirs (base_dir_of fo) w) = Some e"
  by (cases "os_makedirs (base_dir_of fo) w")
    (auto simp add: create_code_file_def Let_def split: prod.splits option.splits)

subsection \<open>Path sanitization\<close>

text \<open>
  Claim C1 says that the path a tool creates, writes or deletes never lies outside
  \<open>chat_gpt/\<close>.  The base name of \<open>..\<close> is \<open>..\<close>, so a folder name \<open>..\<close> gives the path
  \<open>chat_gpt/..\<close>, the directory above.  In a process started in \<open>/home/user\<close>:
  \<open>create_code_file("x.txt", "c", "..")\<close> reports success and creates
  \<open>/home/user/x.txt\<close>, which is not below \<open>/home/user/chat_gpt\<close>;
  \<open>delete_file("x.txt", "..")\<close> then deletes that file; and \<open>delete_folder("..")\<close>
  instead empties \<open>/home/user\<close> before \<open>rmtree\<close> fails on the directory itself.
\<close>

theorem sanitized_path_leaves_chat_gpt:
  "fst (create_code_file ''x.txt'' ''c'' (Some ''..'') world0)
     = Inr ''File created/updated at chat_gpt/../x.txt''
   \<and> fs world0 [''home'', ''user'', ''x.txt''] = None
   \<and> fs (snd (create_code_file ''x.txt'' ''c'' (Some ''..'') world0))
        [''home'', ''user'', ''x.txt''] = Some (RegFile ''c'')
   \<and> \<not> prefix (cwd world0 @ [CHAT_GPT_DIR]) [''home'', ''user'', ''x.txt'']
   \<and> fst (delete_file ''x.txt'' (Some ''..'')
            (snd (create_code_file ''x.txt'' ''c'' (Some ''..'') world0)))
        = Inr ''File chat_gpt/../x.txt has been deleted.''
   \<and> fs (snd (delete_file ''x.txt'' (Some ''..'')
            (snd (create_code_file ''x.txt'' ''c'' (Some ''..'') world0))))
        [''home'', ''user'', ''x.txt''] = None
   \<and> fs (snd (delete_folder ''..''
            (snd (create_code_file ''x.txt'' ''c'' (Some ''..'') world0))))
        [''home'', ''user'', ''x.txt''] = None"
  by code_simp

subsection \<open>Exceptions that leave a tool\<close>

text \<open>
  Claim C3 says that the four file tools never let an exception of a file system call
  reach the caller.  \<open>create_folder\<close> and \<open>create_code_file\<close> call \<open>os.makedirs\<close> before
  their \<open>try\<close>.  After \<open>create_code_file("a", "x")\<close> has made the regular file
  \<open>chat_gpt/a\<close>, the call \<open>create_code_file("b", "y", "a")\<close> raises \<open>FileExistsError\<close>
  from \<open>os.makedirs("chat_gpt/a", exist_ok=True)\<close>; and after
  \<open>create_code_file("chat_gpt", "x")\<close> and \<open>run_project()\<close> the name \<open>chat_gpt\<close> in the
  working directory is a regular file, so \<open>create_folder("z")\<close> raises from
  \<open>os.makedirs("chat_gpt", exist_ok=True)\<close>.
\<close>

theorem makedirs_exception_leaves_tool:
  "fst (create_code_file ''b'' ''y'' (Some ''a'')
          (snd (create_code_file ''a'' ''x'' None world0)))
     = Inl (OSError EEXIST ''chat_gpt/a'')
   \<and> fst (create_folder ''z''
          (snd (run_project (snd (create_code_file ''chat_gpt'' ''x'' None world0)))))
     = Inl (OSError EEXIST ''chat_gpt'')"
  by code_simp

subsection \<open>Deleting what is not there\<close>

text \<open>
  Claim C9: when the computed target path does not exist, \<open>delete_folder\<close> and
  \<open>delete_file\<close> return their \<open>does not exist.\<close> message, raise nothing, and return the
  state they were given: file system, working directory and threads unchanged.
\<close>

theorem delete_missing_target:
  "(\<not> os_path_exists (join CHAT_GPT_DIR (basename (strip folder_name))) w \<longrightarrow>
      delete_folder folder_name w =
        (Inr (''Folder '' @ join CHAT_GPT_DIR (basename (strip folder_name))
                @ '' does not exist.''), w))
   \<and> (\<not> os_path_exists (join (base_dir_of folder) (basename filename)) w \<longrightarrow>
      delete_file filename folder w =
        (Inr (''File '' @ join (base_dir_of folder) (basename filename)
                @ '' does not exist.''), w))"
  by (simp add: delete_folder_def delete_file_def Let_def)

theorem delete_missing_target_witness:
  "\<not> os_path_exists ''chat_gpt/site'' world0
   \<and> delete_folder '' site '' world0 = (Inr ''Folder chat_gpt/site does not exist.'', world0)
   \<and> \<not> os_path_exists ''chat_gpt/site/index.html'' world0
   \<and> delete_file ''index.html'' (Some ''site'') world0
       = (Inr ''File chat_gpt/site/index.html does not exist.'', world0)"
proof -
  have p1: "join CHAT_GPT_DIR (basename (strip '' site '')) = ''chat_gpt/site''"
    by code_simp
  have p2: "join (base_dir_of (Some ''site'')) (basename ''index.html'')
              = ''chat_gpt/site/index.html''"
    by code_simp
  have e1: "\<not> os_path_exists ''chat_gpt/site'' world0"
    by code_simp
  have e2: "\<not> os_path_exists ''chat_gpt/site/index.html'' world0"
    by code_simp
  show ?thesis
    using delete_missing_target [of "'' site ''" world0 "Some ''site''" "''index.html''"]
      p1 p2 e1 e2
    by simp
qed

subsection \<open>The working directory after run_project\<close>

lemma locate_chat_gpt:
  "locate w CHAT_GPT_DIR = Inr t \<Longrightarrow> t = cwd w @ [CHAT_GPT_DIR]"
  by (simp add: locate_def CHAT_GPT_DIR_def start_dir_def step_component_def
      split: option.splits node.splits if_splits)

lemma run_project_started:
  assumes "run_project w = (Inr ''Project server started at http://localhost:8000'', w')"
  shows "cwd w' = cwd w @ [CHAT_GPT_DIR] \<and> threads w' = threads w @ [serve]"
proof -
  obtain r1 w1 where a: "os_makedirs CHAT_GPT_DIR w = (r1, w1)"
    by (cases "os_makedirs CHAT_GPT_DIR w")
  obtain r2 w2 where b: "os_chdir CHAT_GPT_DIR w1 = (r2, w2)"
    by (cases "os_chdir CHAT_GPT_DIR w1")
  from a have f1: "cwd w1 = cwd w \<and> threads w1 = threads w"
    using os_makedirs_frame [of CHAT_GPT_DIR w] by simp
  from assms a b
  have r: "r1 = None \<and> r2 = None \<and> w' = w2\<lparr>threads := threads w2 @ [serve]\<rparr>"
    by (auto simp add: run_project_def split: option.splits)
  from b r have "cwd w2 = cwd w1 @ [CHAT_GPT_DIR] \<and> threads w2 = threads w1"
    by (auto simp add: os_chdir_def split: sum.splits option.splits node.splits
        dest: locate_chat_gpt)
  with r f1 show ?thesis by simp
qed

lemma basename_no_separator: "CHR ''/'' \<notin> set (basename x)"
proof -
  have "\<forall>c \<in> set (takeWhile (\<lambda>c. c \<noteq> CHR ''/'') (rev x)). c \<noteq> CHR ''/''"
    using set_takeWhileD by fastforce
  then show ?thesis by (auto simp add: basename_def)
qed

lemma join_chat_gpt_basename:
  "join CHAT_GPT_DIR (basename x) \<noteq> [] \<and> hd (join CHAT_GPT_DIR (basename x)) \<noteq> CHR ''/''"
proof (cases "basename x")
  case Nil
  then show ?thesis by (simp add: join_def CHAT_GPT_DIR_def)
next
  case (Cons c cs)
  with basename_no_separator [of x] have "c \<noteq> CHR ''/''" by auto
  with Cons show ?thesis by (simp add: join_def CHAT_GPT_DIR_def)
qed

text \<open>
  Claim C8: when \<open>run_project\<close> has prepared the project directory (it then returns its
  \<open>started\<close> message), the working directory of the state it returns is \<open>chat_gpt\<close>
  below the old one; none of the other tools changes the working directory; and every
  relative path is resolved from the new working directory afterwards, the
  \<open>chat_gpt/...\<close> paths of the other tools among them.
\<close>

theorem run_project_changes_cwd:
  assumes "run_project w = (Inr ''Project server started at http://localhost:8000'', w')"
  shows "cwd w' = cwd w @ [CHAT_GPT_DIR]
       \<and> cwd (snd (create_folder n w')) = cwd w'
       \<and> cwd (snd (create_code_file fn c fo w')) = cwd w'
       \<and> cwd (snd (delete_folder n w')) = cwd w'
       \<and> cwd (snd (delete_file fn fo w')) = cwd w'
       \<and> (p \<noteq> [] \<and> hd p \<noteq> CHR ''/'' \<longrightarrow> start_dir w' p = cwd w @ [CHAT_GPT_DIR])
       \<and> start_dir w' (join CHAT_GPT_DIR (basename x)) = cwd w @ [CHAT_GPT_DIR]"
  using run_project_started [OF assms]
  by (simp add: create_folder_frame create_code_file_frame delete_folder_frame
      delete_file_frame start_dir_def join_chat_gpt_basename)

theorem run_project_changes_cwd_witness:
  "cwd (snd (run_project world0)) = [''home'', ''user'', ''chat_gpt'']
   \<and> start_dir (snd (run_project world0)) ''chat_gpt/site'' = [''home'', ''user'', ''chat_gpt'']
   \<and> fst (create_folder ''site'' (snd (run_project world0))) = Inr ''Folder created at chat_gpt/site''
   \<and> cwd (snd (create_folder ''site'' (snd (run_project world0)))) = [''home'', ''user'', ''chat_gpt'']
   \<and> fs (snd (create_folder ''site'' (snd (run_project world0))))
        [''home'', ''user'', ''chat_gpt'', ''chat_gpt'', ''site''] = Some Directory
   \<and> fs (snd (create_folder ''site'' (snd (run_project world0))))
        [''home'', ''user'', ''chat_gpt'', ''site''] = None"
proof -
  have r: "fst (run_project world0) = Inr ''Project server started at http://localhost:8000''"
    by code_simp
  have h: "run_project world0
             = (Inr ''Project server started at http://localhost:8000'', snd (run_project world0))"
    using r by (cases "run_project world0") simp
  have c: "cwd world0 @ [CHAT_GPT_DIR] = [''home'', ''user'', ''chat_gpt'']"
    by code_simp
  have b: "join CHAT_GPT_DIR (basename ''site'') = ''chat_gpt/site''"
    by code_simp
  have t: "fst (create_folder ''site'' (snd (run_project world0))) = Inr ''Folder created at chat_gpt/site''
     \<and> fs (snd (create_folder ''site'' (snd (run_project world0))))
        [''home'', ''user'', ''chat_gpt'', ''chat_gpt'', ''site''] = Some Directory
     \<and> fs (snd (create_folder ''site'' (snd (run_project world0))))
        [''home'', ''user'', ''chat_gpt'', ''site''] = None"
    by code_simp
  show ?thesis
    using run_project_changes_cwd [OF h, of "''site''" "''f''" "''c''" None "''chat_gpt/site''" "''site''"]
      c b t
    by simp
qed

subsection \<open>The server of run_project\<close>

text \<open>
  Claim C6, amended: when \<open>run_project\<close> returns its \<open>started\<close> message it has started
  one more daemon thread, which serves with \<open>ThreadingHTTPServer\<close>, the standard
  library's server that handles every request in a thread of its own, bound to
  \<open>localhost:8000\<close> with \<open>SimpleHTTPRequestHandler\<close>; and the working directory, which
  that handler serves, is \<open>chat_gpt\<close> below the old one.
\<close>

theorem run_project_server:
  assumes "run_project w = (Inr ''Project server started at http://localhost:8000'', w')"
  shows "threads w' = threads w @ [serve]
       \<and> srv_class serve = ThreadingHTTPServer
       \<and> \<not> single_threaded (srv_class serve)
       \<and> srv_host serve = ''localhost'' \<and> srv_port serve = 8000
       \<and> srv_handler serve = ''SimpleHTTPRequestHandler'' \<and> srv_daemon serve
       \<and> cwd w' = cwd w @ [CHAT_GPT_DIR]"
  using run_project_started [OF assms] by (simp add: serve_def)

theorem run_project_server_witness:
  "fst (run_project world0) = Inr ''Project server started at http://localhost:8000''
   \<and> threads (snd (run_project world0)) = [serve]
   \<and> cwd (snd (run_project world0)) = [''home'', ''user'', ''chat_gpt'']"
proof -
  have r: "fst (run_project world0) = Inr ''Project server started at http://localhost:8000''"
    by code_simp
  have h: "run_project world0
             = (Inr ''Project server started at http://localhost:8000'', snd (run_project world0))"
    using r by (cases "run_project world0") simp
  have c: "cwd world0 @ [CHAT_GPT_DIR] = [''home'', ''user'', ''chat_gpt'']"
    by code_simp
  have t: "threads world0 = []"
    by (simp add: world0_def)
  from run_project_server [OF h] r c t show ?thesis by simp
qed

text \<open>
  Claim C6 as stated calls the server single-threaded.  The server that \<open>run_project\<close>
  starts is a \<open>ThreadingHTTPServer\<close>.
\<close>

theorem run_project_server_counterexample:
  "fst (run_project world0) = Inr ''Project server started at http://localhost:8000''
   \<and> map srv_class (threads (snd (run_project world0))) = [ThreadingHTTPServer]
   \<and> \<not> list_all (\<lambda>t. single_threaded (srv_class t)) (threads (snd (run_project world0)))"
  by code_simp

section \<open>Properties of the conversation graph\<close>

lemma graph_builder_nodes:
  "nodes graph_builder =
     [(''rewrite'', Rewrite_node), (''plan'', Plan_node), (''chatbot'', Chatbot),
      (''tools'', Tool_node)]"
  by (simp add: graph_builder_def add_node_def add_edge_def add_conditional_edges_def
      StateGraph_def)

lemma graph_builder_edges:
  "edges graph_builder =
     [(START, ''rewrite''), (''rewrite'', ''plan''), (''plan'', ''chatbot''),
      (''tools'', ''chatbot''), (''chatbot'', END)]"
  by (simp add: graph_builder_def add_node_def add_edge_def add_conditional_edges_def
      StateGraph_def)

lemma graph_builder_branches: "branches graph_builder = [(''chatbot'', tools_condition)]"
  by (simp add: graph_builder_def add_node_def add_edge_def add_conditional_edges_def
      StateGraph_def)

lemma static_START: "static_targets graph_builder START = [''rewrite'']"
  by (simp add: static_targets_def graph_builder_edges START_def END_def)

lemma static_rewrite: "static_targets graph_builder ''rewrite'' = [''plan'']"
  by (simp add: static_targets_def graph_builder_edges START_def END_def)

lemma static_plan: "static_targets graph_builder ''plan'' = [''chatbot'']"
  by (simp add: static_targets_def graph_builder_edges START_def END_def)

lemma static_chatbot: "static_targets graph_builder ''chatbot'' = []"
  by (simp add: static_targets_def graph_builder_edges START_def END_def)

lemma static_tools: "static_targets graph_builder ''tools'' = [''chatbot'']"
  by (simp add: static_targets_def graph_builder_edges START_def END_def)


text \<open>
  Claim C2, amended: the graph has the four nodes rewrite, plan, chatbot and tools; its
  one conditional edge leaves the chatbot node, and its router answers the tools node
  or the end (or raises on a state without messages); the unconditional edges are the
  four from START to rewrite, rewrite to plan, plan to chatbot and tools to chatbot, and
  a fifth from chatbot to END.  An edge to END schedules nothing, so each of START,
  rewrite, plan and tools has one successor and the chatbot node has none but what the
  router answers.
\<close>

theorem graph_builder_shape:
  "map fst (nodes graph_builder) = [''rewrite'', ''plan'', ''chatbot'', ''tools'']
   \<and> branches graph_builder = [(''chatbot'', tools_condition)]
   \<and> tools_condition s \<in>
        {Inr ''tools'', Inr END, Inl (ValueError ''No messages found in input state to tool_edge'')}
   \<and> edges graph_builder =
        [(START, ''rewrite''), (''rewrite'', ''plan''), (''plan'', ''chatbot''),
         (''tools'', ''chatbot''), (''chatbot'', END)]
   \<and> static_targets graph_builder START = [''rewrite'']
   \<and> static_targets graph_builder ''rewrite'' = [''plan'']
   \<and> static_targets graph_builder ''plan'' = [''chatbot'']
   \<and> static_targets graph_builder ''tools'' = [''chatbot'']
   \<and> static_targets graph_builder ''chatbot'' = []"
  by (simp add: graph_builder_nodes graph_builder_branches graph_builder_edges
      static_START static_rewrite static_plan static_tools static_chatbot tools_condition_def)

text \<open>
  Claim C2 as stated lists four unconditional edges.  The builder has a fifth, from the
  chatbot node to END, beside the conditional edge that leaves the same node.
\<close>

theorem fifth_edge_counterexample:
  "(''chatbot'', END) \<in> set (edges graph_builder)
   \<and> (''chatbot'', END) \<notin> set [(START, ''rewrite''), (''rewrite'', ''plan''),
                                 (''plan'', ''chatbot''), (''tools'', ''chatbot'')]
   \<and> \<not> set (edges graph_builder) \<subseteq> set [(START, ''rewrite''), (''rewrite'', ''plan''),
                                          (''plan'', ''chatbot''), (''tools'', ''chatbot'')]"
  by (simp add: graph_builder_edges START_def END_def)

subsection \<open>The order of a run\<close>


















section \<open>Properties of the voice loop\<close>

subsection \<open>The loop goes on, or is left\<close>

lemma main_loop_goes_on:
  "snd (iteration env) = None \<Longrightarrow>
     main_loop (env # envs) = (fst (iteration env) @ fst (main_loop envs), snd (main_loop envs))"
  by (auto split: prod.splits option.splits)

lemma main_loop_stops:
  "snd (iteration env) = Some e \<Longrightarrow> main_loop (env # envs) = (fst (iteration env), Some e)"
  by (auto split: prod.splits option.splits)

lemma main_loop_runs_on:
  "list_all (\<lambda>env. snd (iteration env) = None) envs \<Longrightarrow>
     main_loop envs = (concat (map (\<lambda>env. fst (iteration env)) envs), None)"
  by (induction envs) (auto split: prod.splits option.splits)

lemma collect_prints:
  "collect events acc = (printed, r) \<Longrightarrow>
     \<not> list_ex speaks printed \<and> \<not> list_ex invokes_graph printed
     \<and> \<not> list_ex listens printed \<and> \<not> list_ex recognizes printed"
proof (induction events acc arbitrary: printed r rule: collect.induct)
  case (1 acc)
  then show ?case by auto
next
  case (2 evs acc)
  then show ?case by auto
next
  case (3 evs acc)
  then show ?case by auto
next
  case (4 m ms evs acc)
  then show ?case by (auto split: prod.splits if_splits)
qed

subsection \<open>Errors of the transcription\<close>

text \<open>
  Claim C5: when \<open>recognize_google\<close> raises \<open>UnknownValueError\<close> or \<open>RequestError\<close> the
  iteration prints its message and ends without an exception, and the loop goes on with
  the next iteration; any other exception leaves the iteration and the loop.  In each
  case the recogniser has been called once, the graph not at all, and nothing is
  spoken.
\<close>

theorem transcription_errors:
  assumes "listen env = Inr audio" and "recognize_google env audio = Inl e"
  shows "(e = UnknownValueError \<longrightarrow>
            iteration env =
              ([Print ''Say something!'', Listen, Print ''Processing audio...'',
                Recognize audio,
                Print ''Sorry, I could not understand the audio. Please try again.''], None))
       \<and> (\<forall>m. e = RequestError m \<longrightarrow>
            iteration env =
              ([Print ''Say something!'', Listen, Print ''Processing audio...'',
                Recognize audio,
                Print (''Could not request results from Google Speech Recognition service; ''
                         @ m)], None))
       \<and> (e \<noteq> UnknownValueError \<and> (\<forall>m. e \<noteq> RequestError m) \<longrightarrow>
            iteration env =
              ([Print ''Say something!'', Listen, Print ''Processing audio...'',
                Recognize audio], Some e))
       \<and> length (filter recognizes (fst (iteration env))) = 1
       \<and> \<not> list_ex invokes_graph (fst (iteration env))
       \<and> \<not> list_ex speaks (fst (iteration env))
       \<and> (e = UnknownValueError \<or> (\<exists>m. e = RequestError m) \<longrightarrow>
            main_loop (env # envs) =
              (fst (iteration env) @ fst (main_loop envs), snd (main_loop envs)))
       \<and> (e \<noteq> UnknownValueError \<and> (\<forall>m. e \<noteq> RequestError m) \<longrightarrow>
            main_loop (env # envs) = (fst (iteration env), Some e))"
proof -
  have i: "(e = UnknownValueError \<longrightarrow>
            iteration env =
              ([Print ''Say something!'', Listen, Print ''Processing audio...'',
                Recognize audio,
                Print ''Sorry, I could not understand the audio. Please try again.''], None))
       \<and> (\<forall>m. e = RequestError m \<longrightarrow>
            iteration env =
              ([Print ''Say something!'', Listen, Print ''Processing audio...'',
                Recognize audio,
                Print (''Could not request results from Google Speech Recognition service; ''
                         @ m)], None))
       \<and> (e \<noteq> UnknownValueError \<and> (\<forall>m. e \<noteq> RequestError m) \<longrightarrow>
            iteration env =
              ([Print ''Say something!'', Listen, Print ''Processing audio...'',
                Recognize audio], Some e))
       \<and> length (filter recognizes (fst (iteration env))) = 1
       \<and> \<not> list_ex invokes_graph (fst (iteration env))
       \<and> \<not> list_ex speaks (fst (iteration env))"
    using assms by (cases e) (simp_all add: iteration_def)
  have caught: "e = UnknownValueError \<or> (\<exists>m. e = RequestError m) \<Longrightarrow>
                  snd (iteration env) = None"
    using assms by (cases e) (simp_all add: iteration_def)
  have other: "e \<noteq> UnknownValueError \<and> (\<forall>m. e \<noteq> RequestError m) \<Longrightarrow>
                  snd (iteration env) = Some e"
    using assms by (cases e) (simp_all add: iteration_def)
  have g: "e = UnknownValueError \<or> (\<exists>m. e = RequestError m) \<longrightarrow>
            main_loop (env # envs) =
              (fst (iteration env) @ fst (main_loop envs), snd (main_loop envs))"
    using caught main_loop_goes_on [of env envs] by blast
  have s: "e \<noteq> UnknownValueError \<and> (\<forall>m. e \<noteq> RequestError m) \<longrightarrow>
            main_loop (env # envs) = (fst (iteration env), Some e)"
    using other main_loop_stops [of env e envs] by blast
  from i g s show ?thesis by blast
qed

theorem transcription_errors_witness:
  "iteration (env_raising UnknownValueError) =
     ([Print ''Say something!'', Listen, Print ''Processing audio...'', Recognize ''audio'',
       Print ''Sorry, I could not understand the audio. Please try again.''], None)
   \<and> iteration (env_raising (RequestError ''no network'')) =
     ([Print ''Say something!'', Listen, Print ''Processing audio...'', Recognize ''audio'',
       Print ''Could not request results from Google Speech Recognition service; no network''],
      None)
   \<and> iteration (env_raising (OtherException ''boom'')) =
     ([Print ''Say something!'', Listen, Print ''Processing audio...'', Recognize ''audio''],
      Some (OtherException ''boom''))
   \<and> main_loop [env_raising UnknownValueError, env_raising (RequestError ''no network'')] =
     ([Print ''Say something!'', Listen, Print ''Processing audio...'', Recognize ''audio'',
       Print ''Sorry, I could not understand the audio. Please try again.'',
       Print ''Say something!'', Listen, Print ''Processing audio...'', Recognize ''audio'',
       Print ''Could not request results from Google Speech Recognition service; no network''],
      None)
   \<and> main_loop [env_raising (OtherException ''boom''), env_raising UnknownValueError] =
     ([Print ''Say something!'', Listen, Print ''Processing audio...'', Recognize ''audio''],
      Some (OtherException ''boom''))"
proof -
  have l: "\<And>e. listen (env_raising e) = Inr ''audio''"
    by (simp add: env_raising_def env_ok_def)
  have r: "\<And>e. recognize_google (env_raising e) ''audio'' = Inl e"
    by (simp add: env_raising_def env_ok_def)
  note u = transcription_errors [OF l r, of UnknownValueError
      "[env_raising (RequestError ''no network'')]"]
  note q = transcription_errors [OF l r, of "RequestError ''no network''" "[]"]
  note o = transcription_errors [OF l r, of "OtherException ''boom''"
      "[env_raising UnknownValueError]"]
  have iu: "iteration (env_raising UnknownValueError) =
     ([Print ''Say something!'', Listen, Print ''Processing audio...'', Recognize ''audio'',
       Print ''Sorry, I could not understand the audio. Please try again.''], None)"
    using u by simp
  have iq: "iteration (env_raising (RequestError ''no network'')) =
     ([Print ''Say something!'', Listen, Print ''Processing audio...'', Recognize ''audio'',
       Print ''Could not request results from Google Speech Recognition service; no network''],
      None)"
    using q by simp
  have io: "iteration (env_raising (OtherException ''boom'')) =
     ([Print ''Say something!'', Listen, Print ''Processing audio...'', Recognize ''audio''],
      Some (OtherException ''boom''))"
    using o by simp
  have mq: "main_loop [env_raising (RequestError ''no network'')] =
     (fst (iteration (env_raising (RequestError ''no network''))), None)"
    using q by (simp del: main_loop.simps) simp
  have mu: "main_loop [env_raising UnknownValueError, env_raising (RequestError ''no network'')]
      = (fst (iteration (env_raising UnknownValueError))
           @ fst (main_loop [env_raising (RequestError ''no network'')]),
         snd (main_loop [env_raising (RequestError ''no network'')]))"
    using u by (simp del: main_loop.simps)
  have mo: "main_loop [env_raising (OtherException ''boom''), env_raising UnknownValueError]
      = (fst (iteration (env_raising (OtherException ''boom''))), Some (OtherException ''boom''))"
    using o by (simp del: main_loop.simps)
  from iu iq io mq mu mo show ?thesis by (simp del: main_loop.simps)
qed

subsection \<open>The order of an iteration\<close>

text \<open>
  Claim C7, amended.  The loop has no exit but an exception: as long as no iteration
  raises, it runs every iteration it is given, however many, and is still running.  An
  iteration in which listening returns audio transcribes it next.
  \<^item> When the transcription succeeds and the stream of the graph ends without an
    exception (no event having an empty list of messages), the iteration listens,
    transcribes, invokes the graph on the transcribed text and reads its stream, and
    then speaks the summary, in this order; the loop then goes on.
  \<^item> When the transcription succeeds and the stream raises, or an event has an empty
    list of messages, the exception leaves the loop and nothing is spoken.
  \<^item> When the transcription raises \<open>UnknownValueError\<close> or \<open>RequestError\<close>, the iteration
    ends after the transcription: the graph is not invoked and nothing is spoken, and
    the loop goes on.
\<close>

theorem voice_loop_order:
  assumes "listen env = Inr audio"
  shows "(recognize_google env audio = Inr sst \<and> graph_stream env sst = (events, None)
            \<and> collect events None = (printed, Inr last_ai_text) \<longrightarrow>
          iteration env =
            ([Print ''Say something!'', Listen, Print ''Processing audio...'', Recognize audio,
              Print (''You Said: '' @ sst), Stream sst] @ printed @
             speak_summary env (summary_text last_ai_text), None)
          \<and> hd (speak_summary env (summary_text last_ai_text))
              = Speak (summary_text last_ai_text)
          \<and> main_loop (env # envs) =
              (fst (iteration env) @ fst (main_loop envs), snd (main_loop envs)))
       \<and> (recognize_google env audio = Inr sst \<and> graph_stream env sst = (events, raised)
            \<and> (collect events None = (printed, Inl x)
                \<or> raised = Some x \<and> (\<exists>kept. collect events None = (printed, Inr kept))) \<longrightarrow>
          iteration env =
            ([Print ''Say something!'', Listen, Print ''Processing audio...'', Recognize audio,
              Print (''You Said: '' @ sst), Stream sst] @ printed, Some x)
          \<and> \<not> list_ex speaks (fst (iteration env))
          \<and> main_loop (env # envs) = (fst (iteration env), Some x))
       \<and> (recognize_google env audio = Inl e
            \<and> (e = UnknownValueError \<or> (\<exists>m. e = RequestError m)) \<longrightarrow>
          snd (iteration env) = None
          \<and> take 4 (fst (iteration env)) =
              [Print ''Say something!'', Listen, Print ''Processing audio...'', Recognize audio]
          \<and> \<not> list_ex invokes_graph (fst (iteration env))
          \<and> \<not> list_ex speaks (fst (iteration env))
          \<and> main_loop (env # envs) =
              (fst (iteration env) @ fst (main_loop envs), snd (main_loop envs)))
       \<and> (list_all (\<lambda>env. snd (iteration env) = None) others \<longrightarrow>
            main_loop others = (concat (map (\<lambda>env. fst (iteration env)) others), None))"
proof -
  have a: "recognize_google env audio = Inr sst \<and> graph_stream env sst = (events, None)
            \<and> collect events None = (printed, Inr last_ai_text) \<longrightarrow>
          iteration env =
            ([Print ''Say something!'', Listen, Print ''Processing audio...'', Recognize audio,
              Print (''You Said: '' @ sst), Stream sst] @ printed @
             speak_summary env (summary_text last_ai_text), None)
          \<and> hd (speak_summary env (summary_text last_ai_text))
              = Speak (summary_text last_ai_text)
          \<and> main_loop (env # envs) =
              (fst (iteration env) @ fst (main_loop envs), snd (main_loop envs))"
  proof (intro impI, elim conjE)
    assume h: "recognize_google env audio = Inr sst" "graph_stream env sst = (events, None)"
      "collect events None = (printed, Inr last_ai_text)"
    have i: "iteration env =
            ([Print ''Say something!'', Listen, Print ''Processing audio...'', Recognize audio,
              Print (''You Said: '' @ sst), Stream sst] @ printed @
             speak_summary env (summary_text last_ai_text), None)"
      using assms h by (simp add: iteration_def respond_def)
    have s: "hd (speak_summary env (summary_text last_ai_text))
              = Speak (summary_text last_ai_text)"
      by (simp add: speak_summary_def split: option.splits)
    have m: "main_loop (env # envs) =
              (fst (iteration env) @ fst (main_loop envs), snd (main_loop envs))"
      using i main_loop_goes_on [of env envs] by simp
    from i s m show "iteration env =
            ([Print ''Say something!'', Listen, Print ''Processing audio...'', Recognize audio,
              Print (''You Said: '' @ sst), Stream sst] @ printed @
             speak_summary env (summary_text last_ai_text), None)
          \<and> hd (speak_summary env (summary_text last_ai_text))
              = Speak (summary_text last_ai_text)
          \<and> main_loop (env # envs) =
              (fst (iteration env) @ fst (main_loop envs), snd (main_loop envs))"
      by (intro conjI)
  qed
  have b: "recognize_google env audio = Inr sst \<and> graph_stream env sst = (events, raised)
            \<and> (collect events None = (printed, Inl x)
                \<or> raised = Some x \<and> (\<exists>kept. collect events None = (printed, Inr kept))) \<longrightarrow>
          iteration env =
            ([Print ''Say something!'', Listen, Print ''Processing audio...'', Recognize audio,
              Print (''You Said: '' @ sst), Stream sst] @ printed, Some x)
          \<and> \<not> list_ex speaks (fst (iteration env))
          \<and> main_loop (env # envs) = (fst (iteration env), Some x)"
  proof (intro impI, elim conjE)
    assume h: "recognize_google env audio = Inr sst" "graph_stream env sst = (events, raised)"
      and c: "collect events None = (printed, Inl x)
                \<or> raised = Some x \<and> (\<exists>kept. collect events None = (printed, Inr kept))"
    from c obtain r where cr: "collect events None = (printed, r)" by auto
    have i: "iteration env =
            ([Print ''Say something!'', Listen, Print ''Processing audio...'', Recognize audio,
              Print (''You Said: '' @ sst), Stream sst] @ printed, Some x)"
      using assms h c by (auto simp add: iteration_def respond_def)
    have p: "\<not> list_ex speaks printed"
      using collect_prints [OF cr] by simp
    have s: "\<not> list_ex speaks (fst (iteration env))"
      using i p by simp
    have m: "main_loop (env # envs) = (fst (iteration env), Some x)"
      using i main_loop_stops [of env x envs] by simp
    from i s m show "iteration env =
            ([Print ''Say something!'', Listen, Print ''Processing audio...'', Recognize audio,
              Print (''You Said: '' @ sst), Stream sst] @ printed, Some x)
          \<and> \<not> list_ex speaks (fst (iteration env))
          \<and> main_loop (env # envs) = (fst (iteration env), Some x)"
      by (intro conjI)
  qed
  have c: "recognize_google env audio = Inl e
            \<and> (e = UnknownValueError \<or> (\<exists>m. e = RequestError m)) \<longrightarrow>
          snd (iteration env) = None
          \<and> take 4 (fst (iteration env)) =
              [Print ''Say something!'', Listen, Print ''Processing audio...'', Recognize audio]
          \<and> \<not> list_ex invokes_graph (fst (iteration env))
          \<and> \<not> list_ex speaks (fst (iteration env))
          \<and> main_loop (env # envs) =
              (fst (iteration env) @ fst (main_loop envs), snd (main_loop envs))"
  proof (intro impI, elim conjE)
    assume h: "recognize_google env audio = Inl e"
      and k: "e = UnknownValueError \<or> (\<exists>m. e = RequestError m)"
    have i: "snd (iteration env) = None
          \<and> take 4 (fst (iteration env)) =
              [Print ''Say something!'', Listen, Print ''Processing audio...'', Recognize audio]
          \<and> \<not> list_ex invokes_graph (fst (iteration env))
          \<and> \<not> list_ex speaks (fst (iteration env))"
      using assms h k by (auto simp add: iteration_def)
    then have "snd (iteration env) = None" by (rule conjunct1)
    then have m: "main_loop (env # envs) =
              (fst (iteration env) @ fst (main_loop envs), snd (main_loop envs))"
      by (rule main_loop_goes_on)
    from i m show "snd (iteration env) = None
          \<and> take 4 (fst (iteration env)) =
              [Print ''Say something!'', Listen, Print ''Processing audio...'', Recognize audio]
          \<and> \<not> list_ex invokes_graph (fst (iteration env))
          \<and> \<not> list_ex speaks (fst (iteration env))
          \<and> main_loop (env # envs) =
              (fst (iteration env) @ fst (main_loop envs), snd (main_loop envs))"
      by blast
  qed
  have d: "list_all (\<lambda>env. snd (iteration env) = None) others \<longrightarrow>
            main_loop others = (concat (map (\<lambda>env. fst (iteration env)) others), None)"
    using main_loop_runs_on [of others] by blast
  from a b c d show ?thesis by (intro conjI)
qed

theorem voice_loop_order_witness:
  "iteration env_ok =
     ([Print ''Say something!'', Listen, Print ''Processing audio...'', Recognize ''audio'',
       Print ''You Said: make a folder'', Stream ''make a folder'',
       PrettyPrint (human_message ''make a folder''), PrettyPrint (ai_message ''Done.'' []),
       Speak ''Here is my response: Done.''], None)
   \<and> iteration (env_stream_raising (OtherException ''Connection error.'')) =
     ([Print ''Say something!'', Listen, Print ''Processing audio...'', Recognize ''audio'',
       Print ''You Said: make a folder'', Stream ''make a folder'',
       PrettyPrint (human_message ''make a folder'')],
      Some (OtherException ''Connection error.''))
   \<and> main_loop [env_ok, env_raising UnknownValueError, env_ok] =
       (fst (iteration env_ok) @ fst (iteration (env_raising UnknownValueError))
          @ fst (iteration env_ok), None)
   \<and> main_loop [env_ok, env_stream_raising (OtherException ''Connection error.''), env_ok] =
       (fst (iteration env_ok)
          @ fst (iteration (env_stream_raising (OtherException ''Connection error.''))),
        Some (OtherException ''Connection error.''))"
proof -
  let ?events = "[Some [human_message ''make a folder''],
                  Some [human_message ''make a folder'', ai_message ''Done.'' []]]"
  let ?x = "OtherException ''Connection error.''"
  have l: "listen env_ok = Inr ''audio''"
    by (simp add: env_ok_def)
  have r: "recognize_google env_ok ''audio'' = Inr ''make a folder''"
    by (simp add: env_ok_def)
  have g: "graph_stream env_ok ''make a folder'' = (?events, None)"
    by (simp add: env_ok_def)
  have c: "collect ?events None =
             ([PrettyPrint (human_message ''make a folder''),
               PrettyPrint (ai_message ''Done.'' [])], Inr (Some (Str ''Done.'')))"
    by (simp add: human_message_def ai_message_def)
  have s: "speak_summary env_ok (summary_text (Some (Str ''Done.'')))
             = [Speak ''Here is my response: Done.'']"
    by (simp add: speak_summary_def env_ok_def summary_text_def)
  have ls: "listen (env_stream_raising ?x) = Inr ''audio''"
    by (simp add: env_stream_raising_def env_ok_def)
  have rs: "recognize_google (env_stream_raising ?x) ''audio'' = Inr ''make a folder''"
    by (simp add: env_stream_raising_def env_ok_def)
  have gs: "graph_stream (env_stream_raising ?x) ''make a folder''
              = ([Some [human_message ''make a folder'']], Some ?x)"
    by (simp add: env_stream_raising_def env_ok_def)
  have cs: "collect [Some [human_message ''make a folder'']] None =
             ([PrettyPrint (human_message ''make a folder'')], Inr None)"
    by (simp add: human_message_def)
  have lr: "listen (env_raising UnknownValueError) = Inr ''audio''"
    by (simp add: env_raising_def env_ok_def)
  have rr: "recognize_google (env_raising UnknownValueError) ''audio'' = Inl UnknownValueError"
    by (simp add: env_raising_def env_ok_def)
  note ok = voice_loop_order [OF l, THEN conjunct1, rule_format, OF conjI [OF r conjI [OF g c]]]
  have i: "iteration env_ok =
     ([Print ''Say something!'', Listen, Print ''Processing audio...'', Recognize ''audio'',
       Print ''You Said: make a folder'', Stream ''make a folder'',
       PrettyPrint (human_message ''make a folder''), PrettyPrint (ai_message ''Done.'' []),
       Speak ''Here is my response: Done.''], None)"
    using ok [THEN conjunct1] s by simp
  have raise_hyp: "collect [Some [human_message ''make a folder'']] None
           = ([PrettyPrint (human_message ''make a folder'')], Inl ?x)
        \<or> Some ?x = Some ?x
           \<and> (\<exists>kept. collect [Some [human_message ''make a folder'']] None
                        = ([PrettyPrint (human_message ''make a folder'')], Inr kept))"
    using cs by blast
  note bad = voice_loop_order [OF ls, THEN conjunct2, THEN conjunct1, rule_format,
      OF conjI [OF rs conjI [OF gs raise_hyp]]]
  have j: "iteration (env_stream_raising ?x) =
     ([Print ''Say something!'', Listen, Print ''Processing audio...'', Recognize ''audio'',
       Print ''You Said: make a folder'', Stream ''make a folder'',
       PrettyPrint (human_message ''make a folder'')], Some ?x)"
    using bad [THEN conjunct1] by simp
  have n: "snd (iteration (env_raising UnknownValueError)) = None"
    using voice_loop_order [OF lr, THEN conjunct2, THEN conjunct2, THEN conjunct1, rule_format,
        of UnknownValueError] rr
    by simp
  have a: "list_all (\<lambda>env. snd (iteration env) = None)
             [env_ok, env_raising UnknownValueError, env_ok]"
    using n i by simp
  have m1: "main_loop [env_ok, env_raising UnknownValueError, env_ok] =
       (fst (iteration env_ok) @ fst (iteration (env_raising UnknownValueError))
          @ fst (iteration env_ok), None)"
    using voice_loop_order [OF l, THEN conjunct2, THEN conjunct2, THEN conjunct2, rule_format,
        OF a]
    by (simp del: main_loop.simps)
  have m2a: "main_loop [env_stream_raising ?x, env_ok]
               = (fst (iteration (env_stream_raising ?x)), Some ?x)"
    using bad [THEN conjunct2, THEN conjunct2, of "[env_ok]"] .
  have m2b: "main_loop [env_ok, env_stream_raising ?x, env_ok] =
       (fst (iteration env_ok) @ fst (main_loop [env_stream_raising ?x, env_ok]),
        snd (main_loop [env_stream_raising ?x, env_ok]))"
    using ok [THEN conjunct2, THEN conjunct2, of "[env_stream_raising ?x, env_ok]"] .
  have m2: "main_loop [env_ok, env_stream_raising ?x, env_ok] =
       (fst (iteration env_ok) @ fst (iteration (env_stream_raising ?x)), Some ?x)"
    using m2a m2b by (simp del: main_loop.simps)
  from i j m1 m2 show ?thesis by (intro conjI)
qed

text \<open>
  Claim C7 as stated has every iteration invoke the graph and speak, and the cycle then
  repeat.  An iteration in which the recogniser raises \<open>UnknownValueError\<close> listens and
  transcribes, then ends without an exception: the graph is not invoked and nothing is
  spoken.  And an iteration in which the stream of the graph raises invokes the graph
  and speaks nothing, and the exception leaves the loop: the next iteration is not run.
\<close>

theorem voice_loop_order_counterexample:
  "snd (iteration (env_raising UnknownValueError)) = None
   \<and> list_ex listens (fst (iteration (env_raising UnknownValueError)))
   \<and> list_ex recognizes (fst (iteration (env_raising UnknownValueError)))
   \<and> \<not> list_ex invokes_graph (fst (iteration (env_raising UnknownValueError)))
   \<and> \<not> list_ex speaks (fst (iteration (env_raising UnknownValueError)))
   \<and> list_ex invokes_graph
        (fst (iteration (env_stream_raising (OtherException ''Connection error.''))))
   \<and> \<not> list_ex speaks
        (fst (iteration (env_stream_raising (OtherException ''Connection error.''))))
   \<and> main_loop [env_stream_raising (OtherException ''Connection error.''), env_ok] =
       (fst (iteration (env_stream_raising (OtherException ''Connection error.''))),
        Some (OtherException ''Connection error.''))"
  by (simp add: iteration_def respond_def env_stream_raising_def env_raising_def env_ok_def
      human_message_def)

subsection \<open>The text that is spoken\<close>






end
